theory Spec2Isabelle
  imports Complex_Main "HOL-Library.Word" "HOL-Library.Multiset"
begin

section \<open>Strings, errors and effects\<close>

text \<open>
  A JavaScript string is a sequence of UTF-16 code units. The application translates
  Korean, Japanese and Chinese text, and \<^verbatim>\<open>String.prototype.trim\<close> strips code units
  beyond Latin-1 (the ideographic space U+3000, for one), so strings are modelled as
  lists of 16-bit words. \<open>lit\<close> embeds the ASCII literals of the source.
\<close>

type_synonym jschar = "16 word"
type_synonym jsstring = "jschar list"

definition lit :: "string \<Rightarrow> jsstring" where
  "lit s = map of_char s"

text \<open>
  The code units removed by \<^verbatim>\<open>trim()\<close>: ECMAScript's WhiteSpace (TAB, VT, FF, SP,
  NBSP, ZWNBSP and the Unicode space separators) and LineTerminator (LF, CR, LS, PS).
\<close>

definition isWhiteSpace :: "jschar \<Rightarrow> bool" where
  "isWhiteSpace c \<longleftrightarrow>
     c \<in> {0x9, 0xA, 0xB, 0xC, 0xD, 0x20, 0xA0, 0x1680, 0x2028, 0x2029,
          0x202F, 0x205F, 0x3000, 0xFEFF}
     \<or> (0x2000 \<le> c \<and> c \<le> 0x200A)"

definition trim :: "jsstring \<Rightarrow> jsstring" where
  "trim s = rev (dropWhile isWhiteSpace (rev (dropWhile isWhiteSpace s)))"

text \<open>Thrown values. A promise that rejects is an \<open>Inl\<close>, one that resolves an \<open>Inr\<close>.\<close>

datatype js_error = Error string | TypeError string | SyntaxError string

text \<open>
  The request of \<^verbatim>\<open>client.models.generateContent\<close>: the model name, the contents
  (a prompt string, or a list of parts) and the optional system instruction. The
  response exposes \<^verbatim>\<open>text\<close>, a string or \<^verbatim>\<open>undefined\<close>.
\<close>

datatype part = InlineData jsstring jsstring | TextPart jsstring

datatype contents = ContentString jsstring | ContentParts "part list"

record gen_request =
  model :: jsstring
  contents :: contents
  systemInstruction :: "jsstring option"

record gen_response =
  text' :: "jsstring option"

text \<open>
  Parsed JSON, as \<^verbatim>\<open>response.json()\<close> yields it. Numbers are kept as rationals
  (every finite double is one); only whether a number is zero matters below.
\<close>

datatype jsval =
    Undefined
  | Null
  | Bool bool
  | Num rat
  | Str jsstring
  | Arr "jsval list"
  | Obj "(jsstring \<times> jsval) list"

text \<open>
  The record type of the application. \<^verbatim>\<open>Omit<TranslationRecord, 'id' | 'timestamp'>\<close>
  is the record without its two generated fields; the full record extends it.
\<close>

datatype record_type = text_type | image_type | camera_type

record partial_record =
  type' :: record_type
  original :: jsstring
  translated :: jsstring
  sourceLang :: jsstring
  targetLang :: jsstring

record TranslationRecord = partial_record +
  id' :: jsstring
  timestamp :: int

text \<open>
  A \<^verbatim>\<open>fetch\<close> request. The body of the one POST the application sends is
  \<^verbatim>\<open>JSON.stringify({ action: "save", data: newRecord })\<close>; it is kept structured.
\<close>

datatype http_method = GET | POST

datatype request_body = SaveAction TranslationRecord

record fetch_request =
  url :: jsstring
  http_method :: http_method
  headers :: "(string \<times> string) list"
  body :: "request_body option"

record http_response =
  ok :: bool
  json :: "js_error + jsval"

text \<open>What a call does besides returning: the network calls and the console lines.\<close>

datatype effect =
    GenerateContent gen_request
  | Fetch fetch_request
  | ConsoleError string
  | ConsoleWarn string

fun is_network :: "effect \<Rightarrow> bool" where
  "is_network (GenerateContent _) = True"
| "is_network (Fetch _) = True"
| "is_network (ConsoleError _) = False"
| "is_network (ConsoleWarn _) = False"

definition network_calls :: "effect list \<Rightarrow> effect list" where
  "network_calls effs = filter is_network effs"

text \<open>
  Everything outside the program: the configured store URL (the empty string when the
  environment variable is missing), how the two transports answer each request, and
  what \<^verbatim>\<open>crypto.randomUUID()\<close> and \<^verbatim>\<open>Date.now()\<close> return. The page is
  taken to run in a secure context, where \<^verbatim>\<open>crypto.randomUUID\<close> exists.
\<close>

record world =
  SHEET_URL :: jsstring
  generateContent :: "gen_request \<Rightarrow> js_error + gen_response"
  fetch :: "fetch_request \<Rightarrow> js_error + http_response"
  randomUUID :: jsstring
  now :: int

text \<open>
  An \<^verbatim>\<open>async\<close> function returns how its promise settles, with the effects performed
  on the way, in order. \<open>bind\<close> is \<^verbatim>\<open>await\<close> followed by the rest of the body,
  \<open>try_catch\<close> is \<^verbatim>\<open>try { ... } catch (error) { ... }\<close>.
\<close>

type_synonym 'a io = "(js_error + 'a) \<times> effect list"

definition return :: "'a \<Rightarrow> 'a io" where
  "return v = (Inr v, [])"

definition throw :: "js_error \<Rightarrow> 'a io" where
  "throw e = (Inl e, [])"

definition bind :: "'a io \<Rightarrow> ('a \<Rightarrow> 'b io) \<Rightarrow> 'b io" where
  "bind m f =
     (case m of
        (Inl e, effs) \<Rightarrow> (Inl e, effs)
      | (Inr v, effs) \<Rightarrow> (case f v of (r, effs') \<Rightarrow> (r, effs @ effs')))"

definition try_catch :: "'a io \<Rightarrow> (js_error \<Rightarrow> 'a io) \<Rightarrow> 'a io" where
  "try_catch m handler =
     (case m of
        (Inl e, effs) \<Rightarrow> (case handler e of (r, effs') \<Rightarrow> (r, effs @ effs'))
      | (Inr v, effs) \<Rightarrow> (Inr v, effs))"

definition console_error :: "string \<Rightarrow> unit io" where
  "console_error msg = (Inr (), [ConsoleError msg])"

definition console_warn :: "string \<Rightarrow> unit io" where
  "console_warn msg = (Inr (), [ConsoleWarn msg])"

definition call_generateContent :: "world \<Rightarrow> gen_request \<Rightarrow> gen_response io" where
  "call_generateContent w request = (generateContent w request, [GenerateContent request])"

definition call_fetch :: "world \<Rightarrow> fetch_request \<Rightarrow> http_response io" where
  "call_fetch w request = (fetch w request, [Fetch request])"

text \<open>\<^verbatim>\<open>s || fallback\<close> on a string that may be undefined: the empty string is falsy.\<close>

definition or_default :: "jsstring option \<Rightarrow> jsstring \<Rightarrow> jsstring" where
  "or_default v fallback =
     (case v of None \<Rightarrow> fallback | Some s \<Rightarrow> if s = [] then fallback else s)"

section \<open>GeminiService\<close>

definition SYSTEM_PROMPT :: jsstring where
  "SYSTEM_PROMPT = lit ''You are a professional translator. Translate the input accurately. Only return the translated text, no explanations.''"

definition modelName :: jsstring where
  "modelName = lit ''gemini-2.5-flash''"

text \<open>The request \<^verbatim>\<open>translateText\<close> builds: the template-string prompt and the config.\<close>

definition text_request :: "jsstring \<Rightarrow> jsstring \<Rightarrow> jsstring \<Rightarrow> gen_request" where
  "text_request text srcLang tgtLang =
     \<lparr>model = modelName,
      contents = ContentString
        (lit ''Translate the following text from '' @ srcLang @ lit '' to '' @ tgtLang
          @ lit ''. Text: '' @ lit [CHR 0x22] @ text @ lit [CHR 0x22]),
      systemInstruction = Some SYSTEM_PROMPT\<rparr>"

definition translateText :: "world \<Rightarrow> jsstring \<Rightarrow> jsstring \<Rightarrow> jsstring \<Rightarrow> jsstring io" where
  "translateText w text srcLang tgtLang =
     (if trim text = [] then return []
      else try_catch
        (bind (call_generateContent w (text_request text srcLang tgtLang))
           (\<lambda>response. return (or_default (text' response) (lit ''Translation failed.''))))
        (\<lambda>error. bind (console_error ''Translation Error:'')
           (\<lambda>_. return (lit ''Error: Could not translate text.''))))"

text \<open>
  \<^verbatim>\<open>base64Image.replace(/^data:image\/(png|jpeg|jpg|webp);base64,/, "")\<close>: the pattern is
  anchored at the start and has no flags, so it removes at most one occurrence, at
  position 0, of \<^verbatim>\<open>data:image/\<close>, one of the four alternatives (tried in order) and
  \<^verbatim>\<open>;base64,\<close>. A string that does not match is returned as it is.
\<close>

definition data_uri_alternatives :: "string list" where
  "data_uri_alternatives = [''png'', ''jpeg'', ''jpg'', ''webp'']"

definition data_uri_prefixes :: "jsstring list" where
  "data_uri_prefixes =
     map (\<lambda>t. lit ''data:image/'' @ lit t @ lit '';base64,'') data_uri_alternatives"

fun strip_first_match :: "jsstring list \<Rightarrow> jsstring \<Rightarrow> jsstring" where
  "strip_first_match [] s = s"
| "strip_first_match (p # ps) s =
     (if take (length p) s = p then drop (length p) s else strip_first_match ps s)"

definition replace_data_uri_prefix :: "jsstring \<Rightarrow> jsstring" where
  "replace_data_uri_prefix s = strip_first_match data_uri_prefixes s"

definition image_prompt :: "jsstring \<Rightarrow> jsstring \<Rightarrow> jsstring" where
  "image_prompt srcLang tgtLang =
     lit ''Translate all visible text in this image from '' @ srcLang @ lit '' to ''
       @ tgtLang
       @ lit ''. Return ONLY the translated text. If there is no text, say ''
       @ lit [CHR 0x22] @ lit ''No text found'' @ lit [CHR 0x22] @ lit ''.''"

definition image_request :: "jsstring \<Rightarrow> jsstring \<Rightarrow> jsstring \<Rightarrow> gen_request" where
  "image_request base64Image srcLang tgtLang =
     (let cleanBase64 = replace_data_uri_prefix base64Image
      in \<lparr>model = modelName,
          contents = ContentParts
            [InlineData (lit ''image/jpeg'') cleanBase64,
             TextPart (image_prompt srcLang tgtLang)],
          systemInstruction = None\<rparr>)"

definition translateImage :: "world \<Rightarrow> jsstring \<Rightarrow> jsstring \<Rightarrow> jsstring \<Rightarrow> jsstring io" where
  "translateImage w base64Image srcLang tgtLang =
     try_catch
       (bind (call_generateContent w (image_request base64Image srcLang tgtLang))
          (\<lambda>response. return (or_default (text' response) (lit ''Analysis failed.''))))
       (\<lambda>error. bind (console_error ''Image Translation Error:'')
          (\<lambda>_. return (lit ''Error: Could not analyze image.'')))"

section \<open>StorageService\<close>

text \<open>
  \<^verbatim>\<open>{ ...record, id: crypto.randomUUID(), timestamp: Date.now() }\<close>: a new object with
  the caller's five properties copied and the two generated ones added.
\<close>

definition newRecord :: "world \<Rightarrow> partial_record \<Rightarrow> TranslationRecord" where
  "newRecord w record =
     \<lparr>type' = type' record,
      original = original record,
      translated = translated record,
      sourceLang = sourceLang record,
      targetLang = targetLang record,
      id' = randomUUID w,
      timestamp = now w\<rparr>"

definition save_request :: "jsstring \<Rightarrow> TranslationRecord \<Rightarrow> fetch_request" where
  "save_request u r =
     \<lparr>url = u,
      http_method = POST,
      headers = [(''Content-Type'', ''text/plain;charset=utf-8'')],
      body = Some (SaveAction r)\<rparr>"

definition saveRecord :: "world \<Rightarrow> partial_record \<Rightarrow> TranslationRecord io" where
  "saveRecord w record =
     (let r = newRecord w record
      in if SHEET_URL w = []
         then bind (console_warn ''GOOGLE_SHEET_URL is missing in .env'') (\<lambda>_. return r)
         else bind
           (try_catch
              (bind (call_fetch w (save_request (SHEET_URL w) r)) (\<lambda>_. return ()))
              (\<lambda>error. console_error ''Failed to save to Google Sheet:''))
           (\<lambda>_. return r))"

text \<open>
  The same call with its argument passed by reference, as JavaScript passes it. The
  heap holds the objects of the two shapes; an address is an index into it. The object
  literal of \<open>newRecord\<close> allocates: the result is a new cell at the end of the heap.
  A full record may stand where the partial one is expected (its \<^verbatim>\<open>id\<close> and
  \<^verbatim>\<open>timestamp\<close> are overwritten in the copy). A dangling address cannot occur in
  JavaScript; the model answers \<open>None\<close> for it.
\<close>

datatype heap_obj = PartialObj partial_record | RecordObj TranslationRecord

type_synonym addr = nat
type_synonym heap = "heap_obj list"

fun spread_fields :: "heap_obj \<Rightarrow> partial_record" where
  "spread_fields (PartialObj p) = p"
| "spread_fields (RecordObj r) = partial_record.truncate r"

definition saveRecord_ref :: "world \<Rightarrow> heap \<Rightarrow> addr \<Rightarrow> (addr io \<times> heap) option" where
  "saveRecord_ref w h a =
     (if a < length h
      then (case saveRecord w (spread_fields (h ! a)) of
              (Inr r, effs) \<Rightarrow> Some ((Inr (length h), effs), h @ [RecordObj r])
            | (Inl e, effs) \<Rightarrow> Some ((Inl e, effs), h))
      else None)"

text \<open>
  \<^verbatim>\<open>getRecords\<close>. \<^verbatim>\<open>json.data\<close> throws a TypeError on \<^verbatim>\<open>null\<close> and
  \<^verbatim>\<open>undefined\<close>, is the property's value on an object that has it, and is
  \<^verbatim>\<open>undefined\<close> on every other value (an array, a string, a number and a boolean have
  no \<^verbatim>\<open>data\<close> property). An object is the list of its properties, whose names
  are distinct in a parsed object.
\<close>

fun get_data :: "jsval \<Rightarrow> js_error + jsval" where
  "get_data Undefined = Inl (TypeError ''Cannot read properties of undefined'')"
| "get_data Null = Inl (TypeError ''Cannot read properties of null'')"
| "get_data (Obj ps) = Inr (case map_of ps (lit ''data'') of None \<Rightarrow> Undefined | Some v \<Rightarrow> v)"
| "get_data (Bool b) = Inr Undefined"
| "get_data (Num n) = Inr Undefined"
| "get_data (Str s) = Inr Undefined"
| "get_data (Arr xs) = Inr Undefined"

fun truthy :: "jsval \<Rightarrow> bool" where
  "truthy Undefined = False"
| "truthy Null = False"
| "truthy (Bool b) = b"
| "truthy (Num n) = (n \<noteq> 0)"
| "truthy (Str s) = (s \<noteq> [])"
| "truthy (Arr xs) = True"
| "truthy (Obj ps) = True"

definition settle :: "js_error + 'a \<Rightarrow> 'a io" where
  "settle r = (r, [])"

definition get_request :: "jsstring \<Rightarrow> fetch_request" where
  "get_request u = \<lparr>url = u, http_method = GET, headers = [], body = None\<rparr>"

definition getRecords :: "world \<Rightarrow> jsval io" where
  "getRecords w =
     (if SHEET_URL w = [] then return (Arr [])
      else try_catch
        (bind (call_fetch w (get_request (SHEET_URL w)))
           (\<lambda>response.
              if \<not> ok response then throw (Error ''Network response was not ok'')
              else bind (settle (json response))
                (\<lambda>parsed. bind (settle (get_data parsed))
                   (\<lambda>d. return (if truthy d then d else Arr [])))))
        (\<lambda>error. bind (console_error ''Failed to fetch records:'') (\<lambda>_. return (Arr []))))"

section \<open>TextTranslator\<close>

record text_state =
  text_input :: jsstring
  text_output :: jsstring
  text_sourceLang :: jsstring
  text_targetLang :: jsstring
  text_loading :: bool

text \<open>
  \<^verbatim>\<open>handleTranslate\<close> returns nothing; the model returns the state the component is
  left in and, beside it, the record \<^verbatim>\<open>saveRecord\<close> created (\<open>None\<close> when the guard
  returned before anything was done).
\<close>

definition handleTranslate :: "world \<Rightarrow> text_state \<Rightarrow> (text_state \<times> TranslationRecord option) io" where
  "handleTranslate w st =
     (if text_input st = [] then return (st, None)
      else bind (translateText w (text_input st) (text_sourceLang st) (text_targetLang st))
        (\<lambda>result. bind
           (saveRecord w
              \<lparr>type' = text_type,
               original = text_input st,
               translated = result,
               sourceLang = text_sourceLang st,
               targetLang = text_targetLang st\<rparr>)
           (\<lambda>saved. return (st\<lparr>text_output := result, text_loading := False\<rparr>, Some saved))))"

section \<open>ImageTranslator\<close>

text \<open>
  The component's state, its video ref and the camera device. A media stream is the
  list of its tracks. \<open>videoRef\<close> is \<^verbatim>\<open>videoRef.current\<close>: \<open>None\<close> while no
  \<^verbatim>\<open><video>\<close> element is mounted, otherwise the element's \<^verbatim>\<open>srcObject\<close>
  (\<open>None\<close> for \<^verbatim>\<open>null\<close>). The last four fields are the device's side:
  the \<^verbatim>\<open>getUserMedia\<close> calls still pending, the streams it has resolved
  with, every \<^verbatim>\<open>stop()\<close> call made on a track, in order, and the alerts shown.
\<close>

datatype mode = upload | camera

type_synonym track = nat
type_synonym media_stream = "track list"

record image_state =
  mode :: mode
  image' :: "jsstring option"
  img_output :: jsstring
  img_sourceLang :: jsstring
  img_targetLang :: jsstring
  img_loading :: bool
  isCameraActive :: bool
  videoRef :: "media_stream option option"
  pending :: nat
  acquired :: "media_stream list"
  stopped :: "track list"
  alerts :: "string list"

text \<open>
  The JSX renders the \<^verbatim>\<open><video>\<close> element exactly when
  \<^verbatim>\<open>mode === 'camera' && isCameraActive\<close>. After a handler has run, React commits:
  a video element that appears is new (no \<^verbatim>\<open>srcObject\<close>), one that stays keeps its
  \<^verbatim>\<open>srcObject\<close>, one that disappears leaves the ref \<^verbatim>\<open>null\<close>.
\<close>

definition commit :: "image_state \<Rightarrow> image_state" where
  "commit st =
     st\<lparr>videoRef :=
          (if mode st = camera \<and> isCameraActive st
           then (case videoRef st of None \<Rightarrow> Some None | Some srcObject \<Rightarrow> Some srcObject)
           else None)\<rparr>"

text \<open>
  \<^verbatim>\<open>startCamera\<close> is split at its \<^verbatim>\<open>await\<close>: the part that runs at the call, and
  the two continuations, run when \<^verbatim>\<open>getUserMedia\<close> resolves or rejects. Handlers run
  to completion, so other handlers can run between the call and its continuation.
\<close>

definition startCamera :: "image_state \<Rightarrow> image_state" where
  "startCamera st =
     st\<lparr>isCameraActive := True, image' := None, img_output := [], pending := Suc (pending st)\<rparr>"

definition startCamera_resolved :: "media_stream \<Rightarrow> image_state \<Rightarrow> image_state" where
  "startCamera_resolved stream st =
     (let st' = st\<lparr>pending := pending st - 1, acquired := acquired st @ [stream]\<rparr>
      in case videoRef st' of
           Some srcObject \<Rightarrow> st'\<lparr>videoRef := Some (Some stream)\<rparr>
         | None \<Rightarrow> st')"

definition startCamera_rejected :: "image_state \<Rightarrow> image_state" where
  "startCamera_rejected st =
     st\<lparr>pending := pending st - 1,
        alerts := alerts st @ [''Cannot access camera. Please allow permissions.''],
        isCameraActive := False\<rparr>"

text \<open>
  \<^verbatim>\<open>captureImage\<close>. The canvas is rendered whenever the component is, so
  \<^verbatim>\<open>canvasRef.current\<close> is never null; \<open>canvas\<close> is the data URL its 2d context
  produces from the frame, \<open>None\<close> when \<^verbatim>\<open>getContext('2d')\<close> returns null.
\<close>

definition captureImage :: "jsstring option \<Rightarrow> image_state \<Rightarrow> image_state" where
  "captureImage canvas st =
     (case videoRef st of
        None \<Rightarrow> st
      | Some srcObject \<Rightarrow>
          (case canvas of
             None \<Rightarrow> st
           | Some dataUrl \<Rightarrow>
               st\<lparr>image' := Some dataUrl,
                  isCameraActive := False,
                  stopped := stopped st @ (case srcObject of None \<Rightarrow> [] | Some stream \<Rightarrow> stream)\<rparr>))"

definition clearPreview :: "image_state \<Rightarrow> image_state" where
  "clearPreview st =
     (let st' = st\<lparr>image' := None\<rparr> in if mode st' = camera then startCamera st' else st')"

text \<open>The cleanup the effect returns.\<close>

definition cleanup :: "image_state \<Rightarrow> image_state" where
  "cleanup st =
     (case videoRef st of
        Some (Some stream) \<Rightarrow> st\<lparr>stopped := stopped st @ stream\<rparr>
      | Some None \<Rightarrow> st
      | None \<Rightarrow> st)"

text \<open>
  Mounting runs the effect: the camera is started in camera mode. Unmounting removes
  the video element and runs the cleanup; \<open>detached_first\<close> says whether React has
  already reset the ref to \<^verbatim>\<open>null\<close> when the cleanup runs.
\<close>

definition mount :: "mode \<Rightarrow> image_state" where
  "mount m =
     (let st = \<lparr>mode = m, image' = None, img_output = [], img_sourceLang = lit ''English'',
                img_targetLang = [0xD55C, 0xAD6D, 0xC5B4], img_loading = False,
                isCameraActive = False, videoRef = None, pending = 0, acquired = [],
                stopped = [], alerts = []\<rparr>
      in commit (if m = camera then startCamera st else st))"

definition unmount :: "bool \<Rightarrow> image_state \<Rightarrow> image_state" where
  "unmount detached_first st =
     (if detached_first then cleanup (st\<lparr>videoRef := None\<rparr>)
      else (cleanup st)\<lparr>videoRef := None\<rparr>)"

text \<open>
  What can happen to a mounted screen, one handler at a time. A stream can only arrive
  for a pending \<^verbatim>\<open>getUserMedia\<close> call, and a button can only be tapped where the
  JSX renders it; an event that cannot happen leaves the state as it is. After an
  unmount the ref stays \<^verbatim>\<open>null\<close>, and only the continuations of \<open>startCamera\<close>
  are left to run.
\<close>

datatype event =
    TapStartCamera
  | StreamResolved media_stream
  | StreamRejected
  | Capture "jsstring option"
  | ClearPreview
  | Unmount bool

datatype lifecycle = Mounted | Unmounted

fun step :: "event \<Rightarrow> lifecycle \<times> image_state \<Rightarrow> lifecycle \<times> image_state" where
  "step TapStartCamera (l, st) =
     (if l = Mounted \<and> mode st = camera \<and> \<not> isCameraActive st \<and> image' st \<in> {None, Some []}
      then (l, commit (startCamera st)) else (l, st))"
| "step (StreamResolved stream) (l, st) =
     (if pending st = 0 then (l, st)
      else if l = Mounted then (l, commit (startCamera_resolved stream st))
      else (l, startCamera_resolved stream st))"
| "step StreamRejected (l, st) =
     (if pending st = 0 then (l, st)
      else if l = Mounted then (l, commit (startCamera_rejected st))
      else (l, startCamera_rejected st))"
| "step (Capture canvas) (l, st) =
     (if l = Mounted \<and> mode st = camera \<and> isCameraActive st
      then (l, commit (captureImage canvas st)) else (l, st))"
| "step ClearPreview (l, st) =
     (if l = Mounted \<and> \<not> (mode st = camera \<and> isCameraActive st) \<and> image' st \<notin> {None, Some []}
      then (l, commit (clearPreview st)) else (l, st))"
| "step (Unmount detached_first) (l, st) =
     (if l = Mounted then (Unmounted, unmount detached_first st) else (l, st))"

definition run :: "event list \<Rightarrow> lifecycle \<times> image_state \<Rightarrow> lifecycle \<times> image_state" where
  "run evs s = foldl (\<lambda>s e. step e s) s evs"

text \<open>The tracks the device has handed out on which \<^verbatim>\<open>stop()\<close> was never called.\<close>

definition live_tracks :: "image_state \<Rightarrow> track list" where
  "live_tracks st = filter (\<lambda>t. t \<notin> set (stopped st)) (concat (acquired st))"

text \<open>The translate action of the screen, with the record created beside the state.\<close>

definition handleTranslate_image ::
    "world \<Rightarrow> image_state \<Rightarrow> (image_state \<times> TranslationRecord option) io" where
  "handleTranslate_image w st =
     (case image' st of
        None \<Rightarrow> return (st, None)
      | Some img \<Rightarrow>
          if img = [] then return (st, None)
          else bind (translateImage w img (img_sourceLang st) (img_targetLang st))
            (\<lambda>result. bind
               (saveRecord w
                  \<lparr>type' = (if mode st = upload then image_type else camera_type),
                   original = img,
                   translated = result,
                   sourceLang = img_sourceLang st,
                   targetLang = img_targetLang st\<rparr>)
               (\<lambda>saved. return (st\<lparr>img_output := result, img_loading := False\<rparr>, Some saved))))"

section \<open>HistoryView\<close>

text \<open>
  \<^verbatim>\<open>Array.prototype.sort\<close> with a comparator is the platform's. ECMAScript requires it
  to be stable and, for a consistent comparator, to place \<open>a\<close> before \<open>b\<close> only when
  \<^verbatim>\<open>comparator(a, b) <= 0\<close>; a stable insertion sort is one such sort.
\<close>

fun insert_sorted :: "('a \<Rightarrow> 'a \<Rightarrow> int) \<Rightarrow> 'a \<Rightarrow> 'a list \<Rightarrow> 'a list" where
  "insert_sorted cmp x [] = [x]"
| "insert_sorted cmp x (y # ys) =
     (if cmp x y \<le> 0 then x # y # ys else y # insert_sorted cmp x ys)"

definition array_sort :: "('a \<Rightarrow> 'a \<Rightarrow> int) \<Rightarrow> 'a list \<Rightarrow> 'a list" where
  "array_sort cmp xs = foldr (insert_sorted cmp) xs []"

record history_state =
  records :: "TranslationRecord list"
  selected :: "TranslationRecord option"
  loading :: bool

text \<open>
  \<^verbatim>\<open>fetchHistory\<close>, from the point where \<^verbatim>\<open>getRecords\<close> has resolved with \<open>data\<close>,
  at the type the source declares for it (\<^verbatim>\<open>TranslationRecord[]\<close>).
\<close>

definition fetchHistory :: "TranslationRecord list \<Rightarrow> history_state \<Rightarrow> history_state" where
  "fetchHistory data st =
     (let st1 = st\<lparr>loading := True\<rparr>;
          sorted = array_sort (\<lambda>a b. timestamp b - timestamp a) data
      in st1\<lparr>records := sorted, loading := False\<rparr>)"

section \<open>Sample inputs\<close>

text \<open>
  Concrete worlds and records on which the theorems below are instantiated: a world
  with a store URL whose two transports fail, a world with no store URL whose model
  answers without text, and a world whose store answers every request as given.
\<close>

definition failing_world :: world where
  "failing_world =
     \<lparr>SHEET_URL = lit ''https://script.google.com/macros/s/x/exec'',
      generateContent = (\<lambda>_. Inl (Error ''fetch failed'')),
      fetch = (\<lambda>_. Inl (TypeError ''Failed to fetch'')),
      randomUUID = lit ''3b241101-e2bb-4255-8caf-4136c566a962'', now = 1700000000000\<rparr>"

definition silent_world :: world where
  "silent_world =
     \<lparr>SHEET_URL = [], generateContent = (\<lambda>_. Inr \<lparr>text' = None\<rparr>),
      fetch = (\<lambda>_. Inl (TypeError ''Failed to fetch'')),
      randomUUID = lit ''3b241101-e2bb-4255-8caf-4136c566a962'', now = 1700000000000\<rparr>"

definition sheet_world :: "(js_error + http_response) \<Rightarrow> world" where
  "sheet_world answer =
     \<lparr>SHEET_URL = lit ''https://script.google.com/macros/s/x/exec'',
      generateContent = (\<lambda>_. Inr \<lparr>text' = None\<rparr>),
      fetch = (\<lambda>_. answer),
      randomUUID = lit ''3b241101-e2bb-4255-8caf-4136c566a962'', now = 1700000000000\<rparr>"

definition hello_record :: partial_record where
  "hello_record =
     \<lparr>type' = text_type, original = lit ''Hello'', translated = lit ''Hallo'',
      sourceLang = lit ''English'', targetLang = lit ''Deutsch''\<rparr>"

definition stored_record :: "int \<Rightarrow> TranslationRecord" where
  "stored_record t =
     \<lparr>type' = text_type, original = lit ''Hello'', translated = lit ''Hallo'',
      sourceLang = lit ''English'', targetLang = lit ''Deutsch'',
      id' = lit ''3b241101-e2bb-4255-8caf-4136c566a962'', timestamp = t\<rparr>"

section \<open>The translation client\<close>

lemma trim_Nil_iff: "trim s = [] \<longleftrightarrow> list_all isWhiteSpace s"
proof
  assume "trim s = []"
  then have rest: "\<forall>x\<in>set (dropWhile isWhiteSpace s). isWhiteSpace x"
    by (simp add: trim_def dropWhile_eq_Nil_conv)
  have "dropWhile isWhiteSpace s = []"
  proof (rule ccontr)
    assume ne: "dropWhile isWhiteSpace s \<noteq> []"
    then have "\<not> isWhiteSpace (hd (dropWhile isWhiteSpace s))" by (rule hd_dropWhile)
    moreover from ne have "hd (dropWhile isWhiteSpace s) \<in> set (dropWhile isWhiteSpace s)"
      by simp
    ultimately show False using rest by blast
  qed
  then show "list_all isWhiteSpace s"
    by (simp add: dropWhile_eq_Nil_conv list_all_iff)
next
  assume "list_all isWhiteSpace s"
  then show "trim s = []"
    by (auto simp add: trim_def list_all_iff dest: set_dropWhileD)
qed

lemma translateText_cases:
  "translateText w text srcLang tgtLang =
     (if trim text = [] then (Inr [], [])
      else case generateContent w (text_request text srcLang tgtLang) of
             Inl e \<Rightarrow> (Inr (lit ''Error: Could not translate text.''),
                       [GenerateContent (text_request text srcLang tgtLang),
                        ConsoleError ''Translation Error:''])
           | Inr response \<Rightarrow> (Inr (or_default (text' response) (lit ''Translation failed.'')),
                       [GenerateContent (text_request text srcLang tgtLang)]))"
  by (simp add: translateText_def try_catch_def bind_def return_def call_generateContent_def
      console_error_def split: sum.split)

lemma translateImage_cases:
  "translateImage w img srcLang tgtLang =
     (case generateContent w (image_request img srcLang tgtLang) of
             Inl e \<Rightarrow> (Inr (lit ''Error: Could not analyze image.''),
                       [GenerateContent (image_request img srcLang tgtLang),
                        ConsoleError ''Image Translation Error:''])
           | Inr response \<Rightarrow> (Inr (or_default (text' response) (lit ''Analysis failed.'')),
                       [GenerateContent (image_request img srcLang tgtLang)]))"
  by (simp add: translateImage_def try_catch_def bind_def return_def call_generateContent_def
      console_error_def split: sum.split)

lemma translateImage_network:
  "network_calls (snd (translateImage w img srcLang tgtLang))
     = [GenerateContent (image_request img srcLang tgtLang)]"
  by (simp add: translateImage_cases network_calls_def split: sum.split)

text \<open>The four prefixes the pattern knows are removed, whatever follows them.\<close>

lemma replace_png: "replace_data_uri_prefix (lit ''data:image/png;base64,'' @ rest) = rest"
  by (simp add: replace_data_uri_prefix_def data_uri_prefixes_def data_uri_alternatives_def lit_def)
lemma replace_jpeg: "replace_data_uri_prefix (lit ''data:image/jpeg;base64,'' @ rest) = rest"
  by (simp add: replace_data_uri_prefix_def data_uri_prefixes_def data_uri_alternatives_def lit_def)
lemma replace_jpg: "replace_data_uri_prefix (lit ''data:image/jpg;base64,'' @ rest) = rest"
  by (simp add: replace_data_uri_prefix_def data_uri_prefixes_def data_uri_alternatives_def lit_def)
lemma replace_webp: "replace_data_uri_prefix (lit ''data:image/webp;base64,'' @ rest) = rest"
  by (simp add: replace_data_uri_prefix_def data_uri_prefixes_def data_uri_alternatives_def lit_def)

text \<open>
  C3. A text made only of the code units \<^verbatim>\<open>trim()\<close> removes (the empty text
  included) makes \<open>translateText\<close> resolve with the empty string, for every pair of
  languages and however the transport would answer, and nothing is sent or logged.
\<close>

theorem translateText_blank:
  "list_all isWhiteSpace text \<Longrightarrow> translateText w text srcLang tgtLang = (Inr [], [])"
  by (simp add: translateText_def trim_Nil_iff return_def)

theorem translateText_blank_witness:
  "\<forall>w srcLang tgtLang. list_all isWhiteSpace [0x20, 0x3000, 0xA, 0x9]
     \<and> list_all isWhiteSpace []
     \<and> translateText w [0x20, 0x3000, 0xA, 0x9] srcLang tgtLang = (Inr [], [])
     \<and> translateText w [] srcLang tgtLang = (Inr [], [])"
proof (intro allI)
  fix w srcLang tgtLang
  have a: "list_all isWhiteSpace [0x20, 0x3000, 0xA, 0x9]" by (simp add: isWhiteSpace_def)
  have b: "list_all isWhiteSpace []" by simp
  show "list_all isWhiteSpace [0x20, 0x3000, 0xA, 0x9]
     \<and> list_all isWhiteSpace []
     \<and> translateText w [0x20, 0x3000, 0xA, 0x9] srcLang tgtLang = (Inr [], [])
     \<and> translateText w [] srcLang tgtLang = (Inr [], [])"
    using a b translateText_blank [OF a, of w srcLang tgtLang] translateText_blank [OF b, of w srcLang tgtLang]
    by simp
qed

text \<open>
  C4. Neither \<open>translateText\<close> nor \<open>translateImage\<close> rejects: each resolves with a
  string. When the transport throws, the string is the fixed error text of the
  function; when the response has no text (\<^verbatim>\<open>undefined\<close> or the empty string), it
  is the fixed failure text of the function.
\<close>

theorem translate_never_throws:
  "(\<exists>s. fst (translateText w text srcLang tgtLang) = Inr s)
   \<and> (\<exists>s. fst (translateImage w img srcLang tgtLang) = Inr s)
   \<and> (trim text \<noteq> [] \<and> generateContent w (text_request text srcLang tgtLang) = Inl e
        \<longrightarrow> fst (translateText w text srcLang tgtLang) = Inr (lit ''Error: Could not translate text.''))
   \<and> (generateContent w (image_request img srcLang tgtLang) = Inl e
        \<longrightarrow> fst (translateImage w img srcLang tgtLang) = Inr (lit ''Error: Could not analyze image.''))
   \<and> (trim text \<noteq> [] \<and> generateContent w (text_request text srcLang tgtLang) = Inr response
        \<and> text' response \<in> {None, Some []}
        \<longrightarrow> fst (translateText w text srcLang tgtLang) = Inr (lit ''Translation failed.''))
   \<and> (generateContent w (image_request img srcLang tgtLang) = Inr response
        \<and> text' response \<in> {None, Some []}
        \<longrightarrow> fst (translateImage w img srcLang tgtLang) = Inr (lit ''Analysis failed.''))"
  by (auto simp add: translateText_cases translateImage_cases or_default_def split: sum.split)

theorem translate_never_throws_witness:
  "trim (lit ''Hello'') \<noteq> []
   \<and> generateContent failing_world (text_request (lit ''Hello'') (lit ''English'') (lit ''Deutsch''))
       = Inl (Error ''fetch failed'')
   \<and> fst (translateText failing_world (lit ''Hello'') (lit ''English'') (lit ''Deutsch''))
       = Inr (lit ''Error: Could not translate text.'')
   \<and> fst (translateImage failing_world (lit ''AAAA'') (lit ''English'') (lit ''Deutsch''))
       = Inr (lit ''Error: Could not analyze image.'')
   \<and> text' \<lparr>text' = None\<rparr> \<in> {None, Some []}
   \<and> fst (translateText silent_world (lit ''Hello'') (lit ''English'') (lit ''Deutsch''))
       = Inr (lit ''Translation failed.'')
   \<and> fst (translateImage silent_world (lit ''AAAA'') (lit ''English'') (lit ''Deutsch''))
       = Inr (lit ''Analysis failed.'')"
proof -
  have t: "trim (lit ''Hello'') \<noteq> []"
    by (simp add: trim_def lit_def isWhiteSpace_def)
  have f: "generateContent failing_world r = Inl (Error ''fetch failed'')" for r
    by (simp add: failing_world_def)
  have s: "generateContent silent_world r = Inr \<lparr>text' = None\<rparr>" for r
    by (simp add: silent_world_def)
  show ?thesis
    using t f s
      translate_never_throws [of failing_world "lit ''Hello''" "lit ''English''" "lit ''Deutsch''"
        "lit ''AAAA''" "Error ''fetch failed''" "\<lparr>text' = None\<rparr>"]
      translate_never_throws [of silent_world "lit ''Hello''" "lit ''English''" "lit ''Deutsch''"
        "lit ''AAAA''" "Error ''fetch failed''" "\<lparr>text' = None\<rparr>"]
    by simp
qed

lemma replace_gif: "replace_data_uri_prefix (lit ''data:image/gif;base64,R0lGODlhAQABAAAAACw='')
   = lit ''data:image/gif;base64,R0lGODlhAQABAAAAACw=''"
  by (simp add: replace_data_uri_prefix_def data_uri_prefixes_def data_uri_alternatives_def lit_def)

text \<open>
  C5. The payload sent for an uploaded GIF still begins with its data-URI prefix:
  the pattern removes the prefix of four image types only, and the file picker
  accepts every image type.
\<close>

theorem translateImage_forwards_gif_prefix:
  "\<forall>w srcLang tgtLang.
     network_calls (snd (translateImage w (lit ''data:image/gif;base64,R0lGODlhAQABAAAAACw='') srcLang tgtLang))
     = [GenerateContent
         \<lparr>model = modelName,
          contents = ContentParts
            [InlineData (lit ''image/jpeg'') (lit ''data:image/gif;base64,R0lGODlhAQABAAAAACw=''),
             TextPart (image_prompt srcLang tgtLang)],
          systemInstruction = None\<rparr>]"
  by (simp add: translateImage_network image_request_def replace_gif)

text \<open>
  C10. Whatever the image, the one request \<open>translateImage\<close> sends carries the
  payload under the mime type \<^verbatim>\<open>image/jpeg\<close>: a PNG and a WebP data URI are
  forwarded, prefix removed, tagged as JPEG.
\<close>

theorem translateImage_mime_type:
  "(\<exists>payload. network_calls (snd (translateImage w img srcLang tgtLang))
      = [GenerateContent
          \<lparr>model = modelName,
           contents = ContentParts
             [InlineData (lit ''image/jpeg'') payload, TextPart (image_prompt srcLang tgtLang)],
           systemInstruction = None\<rparr>])
   \<and> network_calls (snd (translateImage w (lit ''data:image/png;base64,iVBORw0KGgo='') srcLang tgtLang))
      = [GenerateContent
          \<lparr>model = modelName,
           contents = ContentParts
             [InlineData (lit ''image/jpeg'') (lit ''iVBORw0KGgo=''),
              TextPart (image_prompt srcLang tgtLang)],
           systemInstruction = None\<rparr>]
   \<and> network_calls (snd (translateImage w (lit ''data:image/webp;base64,UklGRg=='') srcLang tgtLang))
      = [GenerateContent
          \<lparr>model = modelName,
           contents = ContentParts
             [InlineData (lit ''image/jpeg'') (lit ''UklGRg==''),
              TextPart (image_prompt srcLang tgtLang)],
           systemInstruction = None\<rparr>]"
proof -
  have png: "lit ''data:image/png;base64,iVBORw0KGgo='' = lit ''data:image/png;base64,'' @ lit ''iVBORw0KGgo=''"
    by (simp add: lit_def)
  have webp: "lit ''data:image/webp;base64,UklGRg=='' = lit ''data:image/webp;base64,'' @ lit ''UklGRg==''"
    by (simp add: lit_def)
  show ?thesis
    by (simp add: translateImage_network image_request_def) (simp add: png webp replace_png replace_webp)
qed

section \<open>The history store client\<close>

lemma saveRecord_cases:
  "saveRecord w record =
     (if SHEET_URL w = []
      then (Inr (newRecord w record), [ConsoleWarn ''GOOGLE_SHEET_URL is missing in .env''])
      else case fetch w (save_request (SHEET_URL w) (newRecord w record)) of
             Inl e \<Rightarrow> (Inr (newRecord w record),
                       [Fetch (save_request (SHEET_URL w) (newRecord w record)),
                        ConsoleError ''Failed to save to Google Sheet:''])
           | Inr response \<Rightarrow> (Inr (newRecord w record),
                       [Fetch (save_request (SHEET_URL w) (newRecord w record))]))"
  by (simp add: saveRecord_def Let_def try_catch_def bind_def return_def call_fetch_def
      console_error_def console_warn_def split: sum.split)

lemma saveRecord_result: "fst (saveRecord w record) = Inr (newRecord w record)"
  by (simp add: saveRecord_cases split: sum.split)

lemma truncate_newRecord: "partial_record.truncate (newRecord w record) = record"
  by (simp add: newRecord_def partial_record.truncate_def)

lemma getRecords_cases:
  "getRecords w =
     (if SHEET_URL w = [] then (Inr (Arr []), [])
      else case fetch w (get_request (SHEET_URL w)) of
        Inl e \<Rightarrow> (Inr (Arr []), [Fetch (get_request (SHEET_URL w)), ConsoleError ''Failed to fetch records:''])
      | Inr response \<Rightarrow>
          if \<not> ok response
          then (Inr (Arr []), [Fetch (get_request (SHEET_URL w)), ConsoleError ''Failed to fetch records:''])
          else case json response of
            Inl e \<Rightarrow> (Inr (Arr []), [Fetch (get_request (SHEET_URL w)), ConsoleError ''Failed to fetch records:''])
          | Inr parsed \<Rightarrow>
              (case get_data parsed of
                 Inl e \<Rightarrow> (Inr (Arr []), [Fetch (get_request (SHEET_URL w)), ConsoleError ''Failed to fetch records:''])
               | Inr d \<Rightarrow> (Inr (if truthy d then d else Arr []), [Fetch (get_request (SHEET_URL w))])))"
  by (simp add: getRecords_def try_catch_def bind_def return_def throw_def call_fetch_def
      console_error_def settle_def split: sum.split)

text \<open>
  C1. Where \<^verbatim>\<open>crypto.randomUUID()\<close> returns a non-empty string, \<open>saveRecord\<close>
  resolves, for every partial record, with a record whose id is that string and
  whose timestamp is the current time, whatever the store answers to the write. With
  no store URL configured nothing is sent; otherwise the one call is the POST of the
  returned record.
\<close>

theorem saveRecord_returns_record:
  "randomUUID w \<noteq> [] \<Longrightarrow>
     \<exists>r effs. saveRecord w record = (Inr r, effs)
       \<and> id' r = randomUUID w \<and> id' r \<noteq> [] \<and> timestamp r = now w
       \<and> network_calls effs
           = (if SHEET_URL w = [] then [] else [Fetch (save_request (SHEET_URL w) r)])"
  by (simp add: saveRecord_cases network_calls_def newRecord_def split: sum.split)

theorem saveRecord_returns_record_witness:
  "\<forall>p. randomUUID silent_world \<noteq> [] \<and> randomUUID failing_world \<noteq> []
     \<and> SHEET_URL silent_world = [] \<and> SHEET_URL failing_world \<noteq> []
     \<and> (\<exists>r effs. saveRecord silent_world p = (Inr r, effs)
           \<and> id' r = lit ''3b241101-e2bb-4255-8caf-4136c566a962'' \<and> id' r \<noteq> []
           \<and> timestamp r = 1700000000000 \<and> network_calls effs = [])
     \<and> (\<exists>r effs. saveRecord failing_world p = (Inr r, effs)
           \<and> id' r = lit ''3b241101-e2bb-4255-8caf-4136c566a962'' \<and> id' r \<noteq> []
           \<and> timestamp r = 1700000000000
           \<and> network_calls effs = [Fetch (save_request (SHEET_URL failing_world) r)])"
proof
  fix p
  have a: "randomUUID silent_world \<noteq> []" by (simp add: silent_world_def lit_def)
  have b: "randomUUID failing_world \<noteq> []" by (simp add: failing_world_def lit_def)
  have c: "SHEET_URL silent_world = []" by (simp add: silent_world_def)
  have d: "SHEET_URL failing_world \<noteq> []" by (simp add: failing_world_def lit_def)
  have e: "randomUUID silent_world = lit ''3b241101-e2bb-4255-8caf-4136c566a962''"
    "randomUUID failing_world = lit ''3b241101-e2bb-4255-8caf-4136c566a962''"
    "now silent_world = 1700000000000" "now failing_world = 1700000000000"
    by (simp_all add: silent_world_def failing_world_def)
  from saveRecord_returns_record [OF a, of p] saveRecord_returns_record [OF b, of p]
  show "randomUUID silent_world \<noteq> [] \<and> randomUUID failing_world \<noteq> []
     \<and> SHEET_URL silent_world = [] \<and> SHEET_URL failing_world \<noteq> []
     \<and> (\<exists>r effs. saveRecord silent_world p = (Inr r, effs)
           \<and> id' r = lit ''3b241101-e2bb-4255-8caf-4136c566a962'' \<and> id' r \<noteq> []
           \<and> timestamp r = 1700000000000 \<and> network_calls effs = [])
     \<and> (\<exists>r effs. saveRecord failing_world p = (Inr r, effs)
           \<and> id' r = lit ''3b241101-e2bb-4255-8caf-4136c566a962'' \<and> id' r \<noteq> []
           \<and> timestamp r = 1700000000000
           \<and> network_calls effs = [Fetch (save_request (SHEET_URL failing_world) r)])"
    using a b c d e by simp
qed

text \<open>
  C2. \<open>getRecords\<close> never rejects. It resolves with the empty array when no store URL
  is configured (and then sends nothing), when the request fails, when the response
  status is not a success and when the body does not parse; when the parsed body is
  an object whose \<^verbatim>\<open>data\<close> property is an array, it resolves with that array.
  With a store URL it sends one GET.
\<close>

theorem getRecords_never_throws:
  "(\<exists>v. fst (getRecords w) = Inr v)
   \<and> (SHEET_URL w = [] \<longrightarrow> getRecords w = (Inr (Arr []), []))
   \<and> (SHEET_URL w \<noteq> [] \<longrightarrow>
        network_calls (snd (getRecords w)) = [Fetch (get_request (SHEET_URL w))])
   \<and> (SHEET_URL w \<noteq> [] \<and> fetch w (get_request (SHEET_URL w)) = Inl e
        \<longrightarrow> fst (getRecords w) = Inr (Arr []))
   \<and> (SHEET_URL w \<noteq> [] \<and> fetch w (get_request (SHEET_URL w)) = Inr response \<and> \<not> ok response
        \<longrightarrow> fst (getRecords w) = Inr (Arr []))
   \<and> (SHEET_URL w \<noteq> [] \<and> fetch w (get_request (SHEET_URL w)) = Inr response \<and> ok response
        \<and> json response = Inl e'
        \<longrightarrow> fst (getRecords w) = Inr (Arr []))
   \<and> (SHEET_URL w \<noteq> [] \<and> fetch w (get_request (SHEET_URL w)) = Inr response \<and> ok response
        \<and> json response = Inr (Obj ps) \<and> map_of ps (lit ''data'') = Some (Arr xs)
        \<longrightarrow> fst (getRecords w) = Inr (Arr xs))"
  by (auto simp add: getRecords_cases network_calls_def split: sum.split)

theorem getRecords_never_throws_witness:
  "SHEET_URL silent_world = []
   \<and> getRecords silent_world = (Inr (Arr []), [])
   \<and> SHEET_URL failing_world \<noteq> []
   \<and> fetch failing_world (get_request (SHEET_URL failing_world)) = Inl (TypeError ''Failed to fetch'')
   \<and> network_calls (snd (getRecords failing_world)) = [Fetch (get_request (SHEET_URL failing_world))]
   \<and> fst (getRecords failing_world) = Inr (Arr [])
   \<and> \<not> ok \<lparr>ok = False, json = Inr (Obj [])\<rparr>
   \<and> fst (getRecords (sheet_world (Inr \<lparr>ok = False, json = Inr (Obj [])\<rparr>))) = Inr (Arr [])
   \<and> fst (getRecords (sheet_world (Inr \<lparr>ok = True, json = Inl (SyntaxError ''Unexpected token'')\<rparr>)))
        = Inr (Arr [])
   \<and> map_of [(lit ''data'', Arr [Str (lit ''r1''), Str (lit ''r2'')])] (lit ''data'')
        = Some (Arr [Str (lit ''r1''), Str (lit ''r2'')])
   \<and> fst (getRecords (sheet_world (Inr \<lparr>ok = True,
          json = Inr (Obj [(lit ''data'', Arr [Str (lit ''r1''), Str (lit ''r2'')])])\<rparr>)))
        = Inr (Arr [Str (lit ''r1''), Str (lit ''r2'')])"
proof -
  let ?refused = "\<lparr>ok = False, json = Inr (Obj [])\<rparr>"
  let ?garbled = "\<lparr>ok = True, json = Inl (SyntaxError ''Unexpected token'')\<rparr>"
  let ?ps = "[(lit ''data'', Arr [Str (lit ''r1''), Str (lit ''r2'')])]"
  let ?good = "\<lparr>ok = True, json = Inr (Obj ?ps)\<rparr>"
  have u: "SHEET_URL silent_world = []" by (simp add: silent_world_def)
  have c: "SHEET_URL failing_world \<noteq> []" "SHEET_URL (sheet_world answer) \<noteq> []" for answer
    by (simp_all add: failing_world_def sheet_world_def lit_def)
  have f: "fetch failing_world r = Inl (TypeError ''Failed to fetch'')"
    "fetch (sheet_world answer) r = answer" for r answer
    by (simp_all add: failing_world_def sheet_world_def)
  have m: "map_of ?ps (lit ''data'') = Some (Arr [Str (lit ''r1''), Str (lit ''r2'')])"
    by simp
  show ?thesis
    using u c f m
      getRecords_never_throws [of silent_world]
      getRecords_never_throws [of failing_world "TypeError ''Failed to fetch''"]
      getRecords_never_throws [of "sheet_world (Inr ?refused)" _ ?refused]
      getRecords_never_throws [of "sheet_world (Inr ?garbled)" _ ?garbled "SyntaxError ''Unexpected token''"]
      getRecords_never_throws [of "sheet_world (Inr ?good)" _ ?good _ ?ps
        "[Str (lit ''r1''), Str (lit ''r2'')]"]
    by simp
qed

text \<open>
  C9. The record \<open>saveRecord\<close> resolves with is a new object: the caller's object
  \<open>p\<close> is at its address as it was, as is every other object of the heap, and the
  heap has grown by the one new cell. The new record has the type, original,
  translated, sourceLang and targetLang of \<open>p\<close>; without its id and timestamp it is
  \<open>p\<close>.
\<close>

theorem saveRecord_frame:
  assumes "a < length h" and "h ! a = PartialObj p"
  shows "\<exists>r effs h'. saveRecord_ref w h a = Some ((Inr (length h), effs), h')
       \<and> length h \<noteq> a
       \<and> h' ! a = PartialObj p
       \<and> take (length h) h' = h
       \<and> length h' = Suc (length h)
       \<and> h' ! length h = RecordObj r
       \<and> fst (saveRecord w p) = Inr r
       \<and> type' r = type' p
       \<and> original r = original p
       \<and> translated r = translated p
       \<and> sourceLang r = sourceLang p
       \<and> targetLang r = targetLang p
       \<and> partial_record.truncate r = p
       \<and> id' r = randomUUID w
       \<and> timestamp r = now w"
proof -
  have sp: "spread_fields (h ! a) = p"
    using assms(2) by simp
  obtain effs where s: "saveRecord w p = (Inr (newRecord w p), effs)"
    using saveRecord_result [of w p] by (cases "saveRecord w p") simp
  have call: "saveRecord_ref w h a = Some ((Inr (length h), effs), h @ [RecordObj (newRecord w p)])"
    using assms(1) by (simp add: saveRecord_ref_def sp s)
  have same: "(h @ [RecordObj (newRecord w p)]) ! a = PartialObj p"
    using assms by (simp add: nth_append)
  have fields: "type' (newRecord w p) = type' p" "original (newRecord w p) = original p"
    "translated (newRecord w p) = translated p" "sourceLang (newRecord w p) = sourceLang p"
    "targetLang (newRecord w p) = targetLang p" "id' (newRecord w p) = randomUUID w"
    "timestamp (newRecord w p) = now w"
    by (simp_all add: newRecord_def)
  show ?thesis
    using assms(1) call same fields s by (simp add: truncate_newRecord)
qed

theorem saveRecord_frame_witness:
  "(1::nat) < length [RecordObj (stored_record 5), PartialObj hello_record]
   \<and> [RecordObj (stored_record 5), PartialObj hello_record] ! 1 = PartialObj hello_record
   \<and> (\<exists>r effs. saveRecord_ref failing_world
          [RecordObj (stored_record 5), PartialObj hello_record] 1
        = Some ((Inr 2, effs),
                [RecordObj (stored_record 5), PartialObj hello_record, RecordObj r])
       \<and> type' r = text_type
       \<and> original r = lit ''Hello''
       \<and> translated r = lit ''Hallo''
       \<and> sourceLang r = lit ''English''
       \<and> targetLang r = lit ''Deutsch''
       \<and> id' r = lit ''3b241101-e2bb-4255-8caf-4136c566a962''
       \<and> timestamp r = 1700000000000)"
proof -
  let ?h = "[RecordObj (stored_record 5), PartialObj hello_record]"
  have a: "(1::nat) < length ?h" by simp
  have b: "?h ! 1 = PartialObj hello_record" by simp
  obtain r effs h' where call: "saveRecord_ref failing_world ?h 1 = Some ((Inr (length ?h), effs), h')"
    and pre: "take (length ?h) h' = ?h" and len: "length h' = Suc (length ?h)"
    and new: "h' ! length ?h = RecordObj r"
    and fields: "type' r = type' hello_record" "original r = original hello_record"
      "translated r = translated hello_record" "sourceLang r = sourceLang hello_record"
      "targetLang r = targetLang hello_record" "id' r = randomUUID failing_world"
      "timestamp r = now failing_world"
    using saveRecord_frame [OF a b, of failing_world] by blast
  have "h' = take (length ?h) h' @ [h' ! length ?h]"
    using len by (metis lessI take_Suc_conv_app_nth take_all order_refl)
  then have h': "h' = [RecordObj (stored_record 5), PartialObj hello_record, RecordObj r]"
    using pre new by simp
  show ?thesis
    using a b call h' fields by (auto simp add: hello_record_def failing_world_def)
qed

text \<open>
  A full record may be passed where the partial one is expected; its five fields are
  copied in the same way, and its own id and timestamp are replaced in the copy.
\<close>

lemma saveRecord_ref_full_record:
  assumes "a < length h" and "h ! a = RecordObj q"
  shows "\<exists>r effs. saveRecord_ref w h a = Some ((Inr (length h), effs), h @ [RecordObj r])
       \<and> (h @ [RecordObj r]) ! a = RecordObj q
       \<and> type' r = type' q
       \<and> original r = original q
       \<and> translated r = translated q
       \<and> sourceLang r = sourceLang q
       \<and> targetLang r = targetLang q
       \<and> id' r = randomUUID w
       \<and> timestamp r = now w"
proof -
  let ?p = "partial_record.truncate q"
  have sp: "spread_fields (h ! a) = ?p"
    using assms(2) by simp
  obtain effs where s: "saveRecord w ?p = (Inr (newRecord w ?p), effs)"
    using saveRecord_result [of w ?p] by (cases "saveRecord w ?p") simp
  have call: "saveRecord_ref w h a = Some ((Inr (length h), effs), h @ [RecordObj (newRecord w ?p)])"
    using assms(1) by (simp add: saveRecord_ref_def sp s)
  have same: "(h @ [RecordObj (newRecord w ?p)]) ! a = RecordObj q"
    using assms by (simp add: nth_append)
  show ?thesis
    using call same by (simp add: newRecord_def partial_record.truncate_def)
qed

section \<open>The screens\<close>

text \<open>
  A text with a code unit that \<^verbatim>\<open>trim()\<close> keeps, and every image, gives a record
  whose \<open>original\<close> and \<open>translated\<close> fields are not empty: the translation, or one of
  the fixed failure texts.
\<close>

lemma or_default_nonempty: "fallback \<noteq> [] \<Longrightarrow> or_default v fallback \<noteq> []"
  by (simp add: or_default_def split: option.split)

lemma translateText_nonempty:
  "trim text \<noteq> [] \<Longrightarrow> \<exists>s. fst (translateText w text srcLang tgtLang) = Inr s \<and> s \<noteq> []"
  by (simp add: translateText_cases or_default_nonempty lit_def split: sum.split)

lemma translateImage_nonempty:
  "\<exists>s. fst (translateImage w img srcLang tgtLang) = Inr s \<and> s \<noteq> []"
  by (simp add: translateImage_cases or_default_nonempty lit_def split: sum.split)

lemma handleTranslate_fills_record:
  assumes "trim (text_input st) \<noteq> []"
  shows "\<exists>st' r. fst (handleTranslate w st) = Inr (st', Some r)
           \<and> original r = text_input st \<and> original r \<noteq> [] \<and> translated r \<noteq> []"
proof -
  from assms have ne: "text_input st \<noteq> []" by (auto simp add: trim_def)
  obtain s effs where t: "translateText w (text_input st) (text_sourceLang st) (text_targetLang st) = (Inr s, effs)"
    and s: "s \<noteq> []"
    using translateText_nonempty [OF assms, of w "text_sourceLang st" "text_targetLang st"]
    by (cases "translateText w (text_input st) (text_sourceLang st) (text_targetLang st)") auto
  let ?p = "\<lparr>type' = text_type, original = text_input st, translated = s,
               sourceLang = text_sourceLang st, targetLang = text_targetLang st\<rparr>"
  obtain effs' where sv: "saveRecord w ?p = (Inr (newRecord w ?p), effs')"
    using saveRecord_result [of w ?p] by (cases "saveRecord w ?p") simp
  show ?thesis
    using ne s by (simp add: handleTranslate_def t sv bind_def return_def newRecord_def)
qed

lemma handleTranslate_image_fills_record:
  assumes "image' st = Some img" and "img \<noteq> []"
  shows "\<exists>st' r. fst (handleTranslate_image w st) = Inr (st', Some r)
           \<and> original r = img \<and> translated r \<noteq> []"
proof -
  obtain s effs where t: "translateImage w img (img_sourceLang st) (img_targetLang st) = (Inr s, effs)"
    and s: "s \<noteq> []"
    using translateImage_nonempty [of w img "img_sourceLang st" "img_targetLang st"]
    by (cases "translateImage w img (img_sourceLang st) (img_targetLang st)") auto
  let ?p = "\<lparr>type' = (if mode st = upload then image_type else camera_type), original = img,
               translated = s, sourceLang = img_sourceLang st, targetLang = img_targetLang st\<rparr>"
  obtain effs' where sv: "saveRecord w ?p = (Inr (newRecord w ?p), effs')"
    using saveRecord_result [of w ?p] by (cases "saveRecord w ?p") simp
  show ?thesis
    using assms s by (simp add: handleTranslate_image_def t sv bind_def return_def newRecord_def)
qed

lemma handleTranslate_blank_input:
  "text_input st \<noteq> [] \<Longrightarrow> trim (text_input st) = [] \<Longrightarrow>
   fst (handleTranslate w st)
     = Inr (st\<lparr>text_output := [], text_loading := False\<rparr>,
            Some (newRecord w
              \<lparr>type' = text_type, original = text_input st, translated = [],
               sourceLang = text_sourceLang st, targetLang = text_targetLang st\<rparr>))"
proof -
  assume a: "text_input st \<noteq> []" and b: "trim (text_input st) = []"
  let ?p = "\<lparr>type' = text_type, original = text_input st, translated = [],
               sourceLang = text_sourceLang st, targetLang = text_targetLang st\<rparr>"
  have t: "translateText w (text_input st) (text_sourceLang st) (text_targetLang st) = (Inr [], [])"
    using b by (simp add: translateText_def return_def)
  obtain effs where s: "saveRecord w ?p = (Inr (newRecord w ?p), effs)"
    using saveRecord_result [of w ?p] by (cases "saveRecord w ?p") simp
  show ?thesis
    using a by (simp add: handleTranslate_def t s bind_def return_def)
qed

text \<open>
  C7. A text of one space passes the guard of \<open>handleTranslate\<close>, which only stops
  the empty text; \<open>translateText\<close> answers it with the empty string, and the record
  created has an empty \<open>translated\<close> field.
\<close>

theorem handleTranslate_saves_empty_translation:
  "\<forall>w out src tgt busy.
     \<exists>st' r. fst (handleTranslate w
         \<lparr>text_input = [0x20], text_output = out, text_sourceLang = src,
          text_targetLang = tgt, text_loading = busy\<rparr>) = Inr (st', Some r)
       \<and> type' r = text_type \<and> original r = [0x20] \<and> translated r = []
       \<and> text_output st' = []"
proof (intro allI)
  fix w out src tgt busy
  let ?st = "\<lparr>text_input = [0x20], text_output = out, text_sourceLang = src,
          text_targetLang = tgt, text_loading = busy\<rparr>"
  have a: "text_input ?st \<noteq> []" by simp
  have b: "trim (text_input ?st) = []" by (simp add: trim_def isWhiteSpace_def)
  show "\<exists>st' r. fst (handleTranslate w ?st) = Inr (st', Some r)
       \<and> type' r = text_type \<and> original r = [0x20] \<and> translated r = []
       \<and> text_output st' = []"
    using handleTranslate_blank_input [OF a b, of w] by (simp add: newRecord_def)
qed

text \<open>
  Where a stream is attached to the video element, the capture and the cleanup
  each call \<^verbatim>\<open>stop()\<close> once on every track of it.
\<close>

lemma capture_stops_attached_stream:
  "videoRef st = Some (Some stream) \<Longrightarrow>
     stopped (captureImage (Some dataUrl) st) = stopped st @ stream"
  by (simp add: captureImage_def)

lemma cleanup_stops_attached_stream:
  "videoRef st = Some (Some stream) \<Longrightarrow> stopped (cleanup st) = stopped st @ stream"
  by (simp add: cleanup_def)

lemma mount_camera:
  "mount camera =
     \<lparr>mode = camera, image' = None, img_output = [], img_sourceLang = lit ''English'',
      img_targetLang = [0xD55C, 0xAD6D, 0xC5B4], img_loading = False,
      isCameraActive = True, videoRef = Some None, pending = 1, acquired = [],
      stopped = [], alerts = []\<rparr>"
  by (simp add: mount_def startCamera_def commit_def)

text \<open>
  C8. A stream that arrives after the screen was unmounted, or after a capture, is
  never stopped: its track stays live, whether or not React resets the ref before the
  cleanup. A stream attached at unmount is stopped by the cleanup only if the ref
  still holds the video element then. A capture with the stream attached stops its
  track once.
\<close>

theorem stream_left_live:
  "\<forall>detached_first dataUrl.
     live_tracks (snd (run [Unmount detached_first, StreamResolved [0]] (Mounted, mount camera))) = [0]
   \<and> live_tracks (snd (run [Capture (Some dataUrl), StreamResolved [0]] (Mounted, mount camera))) = [0]
   \<and> live_tracks (snd (run [StreamResolved [0], Unmount True] (Mounted, mount camera))) = [0]
   \<and> live_tracks (snd (run [StreamResolved [0], Unmount False] (Mounted, mount camera))) = []
   \<and> live_tracks (snd (run [StreamResolved [0], Capture (Some dataUrl)] (Mounted, mount camera))) = []
   \<and> stopped (snd (run [StreamResolved [0], Capture (Some dataUrl)] (Mounted, mount camera))) = [0]"
  by (simp add: run_def mount_camera unmount_def cleanup_def startCamera_resolved_def
      captureImage_def commit_def live_tracks_def)

lemma mset_insert_sorted: "mset (insert_sorted cmp x ys) = add_mset x (mset ys)"
  by (induction ys) simp_all

lemma mset_array_sort: "mset (array_sort cmp xs) = mset xs"
  by (induction xs) (simp_all add: array_sort_def mset_insert_sorted)

lemma set_insert_sorted: "set (insert_sorted cmp x ys) = insert x (set ys)"
  by (induction ys) auto

lemma sorted_insert_sorted:
  "sorted_wrt (\<lambda>a b. timestamp b \<le> timestamp a) ys \<Longrightarrow>
   sorted_wrt (\<lambda>a b. timestamp b \<le> timestamp a)
     (insert_sorted (\<lambda>a b. timestamp b - timestamp a) x ys)"
  by (induction ys) (auto simp add: set_insert_sorted)

lemma sorted_array_sort:
  "sorted_wrt (\<lambda>a b. timestamp b \<le> timestamp a)
     (array_sort (\<lambda>a b. timestamp b - timestamp a) xs)"
proof (induction xs)
  case Nil
  show ?case by (simp add: array_sort_def)
next
  case (Cons x xs)
  then show ?case
    using sorted_insert_sorted [of "array_sort (\<lambda>a b. timestamp b - timestamp a) xs" x]
    by (simp add: array_sort_def)
qed

lemma filter_insert_sorted:
  "filter (\<lambda>r. timestamp r = t) (insert_sorted (\<lambda>a b. timestamp b - timestamp a) x ys)
     = (if timestamp x = t then x # filter (\<lambda>r. timestamp r = t) ys
        else filter (\<lambda>r. timestamp r = t) ys)"
  by (induction ys) auto

lemma filter_array_sort:
  "filter (\<lambda>r. timestamp r = t) (array_sort (\<lambda>a b. timestamp b - timestamp a) xs)
     = filter (\<lambda>r. timestamp r = t) xs"
proof (induction xs)
  case Nil
  show ?case by (simp add: array_sort_def)
next
  case (Cons x xs)
  have "array_sort (\<lambda>a b. timestamp b - timestamp a) (x # xs)
      = insert_sorted (\<lambda>a b. timestamp b - timestamp a) x
          (array_sort (\<lambda>a b. timestamp b - timestamp a) xs)"
    by (simp add: array_sort_def)
  with Cons show ?case by (simp add: filter_insert_sorted)
qed

lemma timestamps_array_sort:
  "map timestamp (array_sort (\<lambda>a b. timestamp b - timestamp a) xs)
     = rev (sort (map timestamp xs))"
proof -
  let ?ys = "array_sort (\<lambda>a b. timestamp b - timestamp a) xs"
  have "sorted_wrt (\<lambda>a b. b \<le> a) (map timestamp ?ys)"
    using sorted_array_sort [of xs] by (simp add: sorted_wrt_map)
  then have "sorted (rev (map timestamp ?ys))"
    by (simp add: sorted_wrt_rev)
  moreover have "mset (rev (map timestamp ?ys)) = mset (map timestamp xs)"
    using mset_array_sort [of "\<lambda>a b. timestamp b - timestamp a" xs] by (metis mset_map mset_rev)
  ultimately have "sort (map timestamp xs) = rev (map timestamp ?ys)"
    by (simp add: properties_for_sort)
  then show ?thesis by simp
qed

lemma records_fetchHistory:
  "records (fetchHistory data st) = array_sort (\<lambda>a b. timestamp b - timestamp a) data"
  by (simp add: fetchHistory_def Let_def)

text \<open>
  C6. The list the History screen stores is the fetched list sorted by timestamp,
  newest first: it is in descending order of timestamp, has the same records, keeps
  records of equal timestamp in the order they were fetched, and its timestamps are
  determined by the fetched timestamps alone. Records with timestamps 100, 300, 200
  are stored in the order 300, 200, 100.
\<close>

theorem fetchHistory_newest_first:
  "sorted_wrt (\<lambda>a b. timestamp b \<le> timestamp a) (records (fetchHistory data st))
   \<and> mset (records (fetchHistory data st)) = mset data
   \<and> filter (\<lambda>r. timestamp r = t) (records (fetchHistory data st))
        = filter (\<lambda>r. timestamp r = t) data
   \<and> map timestamp (records (fetchHistory data st)) = rev (sort (map timestamp data))
   \<and> (map timestamp data = [100, 300, 200]
        \<longrightarrow> map timestamp (records (fetchHistory data st)) = [300, 200, 100])
   \<and> \<not> loading (fetchHistory data st)"
  by (simp add: records_fetchHistory sorted_array_sort mset_array_sort filter_array_sort
      timestamps_array_sort) (simp add: fetchHistory_def Let_def)

theorem fetchHistory_newest_first_witness:
  "\<forall>st. map timestamp [stored_record 100, stored_record 300, stored_record 200] = [100, 300, 200]
     \<and> map timestamp (records (fetchHistory
          [stored_record 100, stored_record 300, stored_record 200] st)) = [300, 200, 100]
     \<and> records (fetchHistory [stored_record 100, stored_record 300, stored_record 200] st)
          = [stored_record 300, stored_record 200, stored_record 100]"
proof
  fix st
  have ts: "map timestamp [stored_record 100, stored_record 300, stored_record 200] = [100, 300, 200]"
    by (simp add: stored_record_def)
  have order: "records (fetchHistory [stored_record 100, stored_record 300, stored_record 200] st)
          = [stored_record 300, stored_record 200, stored_record 100]"
    by (simp add: fetchHistory_def Let_def array_sort_def stored_record_def)
  show "map timestamp [stored_record 100, stored_record 300, stored_record 200] = [100, 300, 200]
     \<and> map timestamp (records (fetchHistory
          [stored_record 100, stored_record 300, stored_record 200] st)) = [300, 200, 100]
     \<and> records (fetchHistory [stored_record 100, stored_record 300, stored_record 200] st)
          = [stored_record 300, stored_record 200, stored_record 100]"
    using ts order
      fetchHistory_newest_first [of "[stored_record 100, stored_record 300, stored_record 200]" st]
    by simp
qed

end
